theory Spec2Isabelle
  imports Main
begin

section \<open>The HTTP notifier (http/main.go)\<close>

text \<open>
  The notifier is one Go struct with two methods: \<open>SetUp\<close>, called once with the
  configuration, and \<open>SendNotification\<close>, called once per build event. Both work through
  collaborators that live outside this file: the CEL filter compiler, the binding resolver
  and the UTM annotator of the notifiers library, and Go's \<open>text/template\<close>,
  \<open>encoding/json\<close> and \<open>net/http\<close>. The collaborators are parameters of the model
  (the record \<open>env\<close>); the two methods are translated statement by statement.
\<close>

subsection \<open>Build events\<close>

text \<open>
  \<open>cbpb.Build\<close> is a protobuf message. The fields the notifier names are modelled; every
  other field lives in the extension slot of the record, so a statement about
  \<open>'a Build_scheme\<close> covers them all.
\<close>

datatype Build_Status =
  STATUS_UNKNOWN | PENDING | QUEUED | WORKING | SUCCESS | FAILURE
  | INTERNAL_ERROR | TIMEOUT | CANCELLED | EXPIRED

record Build =
  Id_Build :: string
  ProjectId :: string
  Status :: Build_Status
  LogUrl :: string

text \<open>
  \<open>SendNotification\<close> receives a pointer \<open>*cbpb.Build\<close> and writes through it, and the
  template view keeps that same pointer. Builds therefore live in a store, and a pointer is
  an address; an address with no build behind it stands for \<open>nil\<close>.
\<close>

type_synonym addr = nat

type_synonym 'a builds = "addr \<rightharpoonup> 'a Build_scheme"

text \<open>
  \<open>notifiers.TemplateView{Build: &notifiers.BuildView{Build: build}, Params: bindings}\<close>:
  the view holds the pointer to the build, not a copy of it.
\<close>

record TemplateView =
  Build :: addr
  Params :: "string \<rightharpoonup> string"

definition deref_view ::
  "'a builds \<Rightarrow> TemplateView option \<Rightarrow> ('a Build_scheme \<times> (string \<rightharpoonup> string)) option" where
  "deref_view bs v =
     (case v of
        None \<Rightarrow> None
      | Some tv \<Rightarrow> (case bs (Build tv) of None \<Rightarrow> None | Some b \<Rightarrow> Some (b, Params tv)))"

subsection \<open>Configuration\<close>

text \<open>
  \<open>cfg.Spec.Notification.Filter\<close> is a string and \<open>cfg.Spec.Notification.Delivery\<close> a
  \<open>map[string]interface{}\<close>; \<open>cfg_value\<close> stands for the dynamic values of that map.
\<close>

datatype cfg_value = VString string | VInt int | VBool bool | VNull

record Config =
  Filter :: string
  Delivery :: "string \<rightharpoonup> cfg_value"

subsection \<open>Errors and outcomes\<close>

text \<open>
  One constructor for each \<open>fmt.Errorf\<close> of the file, carrying the message of the wrapped
  error; \<open>TemplateExecuteError\<close> is the error of \<open>Execute\<close>, which line 93 returns as it
  is.
\<close>

datatype error =
  FailedCreateCELPredicate string
  | ExpectedStringFieldUrl
  | FailedParseTemplate string
  | FailedResolveBindings string
  | FailedAddUTMParams string
  | TemplateExecuteError string
  | FailedEncodePayload string
  | FailedCreateRequest string
  | FailedHTTPRequest string

text \<open>
  A call of \<open>SendNotification\<close> either returns an \<open>error\<close> value (\<open>None\<close> is Go's
  \<open>nil\<close>) or panics on a nil dereference.
\<close>

datatype outcome = Returned "error option" | Panicked

subsection \<open>HTTP requests and responses\<close>

record 'c Request =
  Ctx :: 'c
  Method :: string
  URL :: string
  Header :: "string \<rightharpoonup> string"
  Body :: string

record Response =
  Status_Response :: string
  StatusCode :: int

definition Header_Set :: "string \<Rightarrow> string \<Rightarrow> 'c Request \<Rightarrow> 'c Request" where
  "Header_Set k v req = req\<lparr>Header := (Header req)(k \<mapsto> v)\<rparr>"

subsection \<open>Collaborators\<close>

datatype UTMMedium = EmailMedium | ChatMedium | HTTPMedium | OtherMedium

type_synonym ('a, 'c) EventFilter = "'c \<Rightarrow> 'a Build_scheme \<Rightarrow> bool"

type_synonym ('a, 'c) BindingResolver =
  "'c \<Rightarrow> 'a Build_scheme \<Rightarrow> string + (string \<rightharpoonup> string)"

text \<open>
  A parsed template is what \<open>Execute\<close> computes from the data it is given: the build
  behind the view's pointer at the time of the call, and the bindings.
\<close>

type_synonym 'a Template =
  "'a Build_scheme \<Rightarrow> (string \<rightharpoonup> string) \<Rightarrow> string + string"

text \<open>
  Everything the file calls and does not define. \<open>Inl\<close> carries the message of the error
  the collaborator returns.
  \<^item> \<open>MakeCELPredicate\<close>: \<open>notifiers.MakeCELPredicate\<close>, the filter compiler.
  \<^item> \<open>Parse\<close>: \<open>template.New("http_template").Parse\<close>.
  \<^item> \<open>AddUTMParams\<close>: \<open>notifiers.AddUTMParams\<close>.
  \<^item> \<open>Encode\<close>: \<open>json.NewEncoder(payload).Encode(buf)\<close>, from the rendered bytes to the
    bytes written to \<open>payload\<close>.
  \<^item> \<open>url_Parse\<close>: the URL check inside \<open>http.NewRequestWithContext\<close>; \<open>Some\<close> is the
    message of the parse error.
  \<^item> \<open>Do\<close>: \<open>http.DefaultClient.Do\<close>.

  The filter, the resolver and the template receive the pointer to the build; they are
  modelled as functions of the build behind it, that is, as readers of the event that do
  not write to it. The context \<open>ctx\<close> is passed on as the source passes it on.
\<close>

record ('a, 'c) env =
  MakeCELPredicate :: "string \<Rightarrow> string + ('a, 'c) EventFilter"
  Parse :: "string \<Rightarrow> string + 'a Template"
  AddUTMParams :: "string \<Rightarrow> UTMMedium \<Rightarrow> string + string"
  Encode :: "string \<Rightarrow> string + string"
  url_Parse :: "string \<Rightarrow> string option"
  Do :: "'c Request \<Rightarrow> string + Response"

text \<open>
  \<open>http.NewRequestWithContext(ctx, method, url, body)\<close> fails when the URL does not
  parse, and otherwise returns a request with that method, URL and body and an empty
  header. (Its other two failures, an invalid method name and a nil context, cannot happen
  for the method \<open>POST\<close> and a context value.)
\<close>

definition NewRequestWithContext ::
  "('a, 'c) env \<Rightarrow> 'c \<Rightarrow> string \<Rightarrow> string \<Rightarrow> string \<Rightarrow> string + 'c Request" where
  "NewRequestWithContext E ctx method u body =
     (case url_Parse E u of
        Some err \<Rightarrow> Inl err
      | None \<Rightarrow> Inr \<lparr>Ctx = ctx, Method = method, URL = u, Header = Map.empty, Body = body\<rparr>)"

subsection \<open>The notifier and the world around it\<close>

text \<open>
  \<open>type httpNotifier struct\<close>. The interface and pointer fields are \<open>nil\<close> in a fresh
  instance, hence the options.
\<close>

record ('a, 'c) httpNotifier =
  filter_h :: "('a, 'c) EventFilter option"
  tmpl :: "'a Template option"
  url :: string
  br :: "('a, 'c) BindingResolver option"
  tmplView :: "TemplateView option"

text \<open>\<open>new(httpNotifier)\<close>: every field has its zero value.\<close>

definition new_httpNotifier :: "('a, 'c) httpNotifier" where
  "new_httpNotifier = \<lparr>filter_h = None, tmpl = None, url = [], br = None, tmplView = None\<rparr>"

text \<open>
  The four log lines of \<open>SendNotification\<close>, with their arguments. The first and the last
  are \<open>log.V(2)\<close> lines: whether glog prints them depends on its verbosity, so the trace
  records that the statement ran, not what reached the log file.
\<close>

datatype LogLine =
  NotSending string Build_Status
  | Sending string Build_Status
  | NonOKResponse string int string
  | SentSuccessfully

text \<open>The calls a run makes to the outside, in order.\<close>

datatype 'c call =
  ApplyFilter addr
  | Log LogLine
  | Resolve addr
  | AddUTM string
  | Execute TemplateView
  | EncodePayload string
  | HTTPDo "'c Request"
  | CloseBody

record ('a, 'c) world =
  notifier :: "('a, 'c) httpNotifier"
  builds :: "'a builds"
  trace :: "'c call list"

definition emit :: "'c call list \<Rightarrow> ('a, 'c) world \<Rightarrow> ('a, 'c) world" where
  "emit cs w = w\<lparr>trace := trace w @ cs\<rparr>"

subsection \<open>SetUp\<close>

text \<open>
  Lines 45 to 65. The context and the secret getter are ignored by the source (\<open>_\<close>) and
  are left out. The type assertion \<open>.(string)\<close> on a missing key or on a value of another
  type gives \<open>ok = false\<close>.
\<close>

definition SetUp ::
  "('a, 'c) env \<Rightarrow> Config \<Rightarrow> string \<Rightarrow> ('a, 'c) BindingResolver \<Rightarrow>
     ('a, 'c) httpNotifier \<Rightarrow> error option \<times> ('a, 'c) httpNotifier" where
  "SetUp E cfg httpTemplate br_arg h =
     (case MakeCELPredicate E (Filter cfg) of
        Inl err \<Rightarrow> (Some (FailedCreateCELPredicate err), h)
      | Inr prd \<Rightarrow>
          (let h1 = h\<lparr>filter_h := Some prd\<rparr>;
               h2 = h1\<lparr>br := Some br_arg\<rparr>
           in case Delivery cfg ''url'' of
                Some (VString u) \<Rightarrow>
                  (let h3 = h2\<lparr>url := u\<rparr>
                   in case Parse E httpTemplate of
                        Inl err \<Rightarrow> (Some (FailedParseTemplate err), h3)
                      | Inr t \<Rightarrow> (None, h3\<lparr>tmpl := Some t\<rparr>))
              | _ \<Rightarrow> (Some ExpectedStringFieldUrl, h2)))"

subsection \<open>SendNotification\<close>

text \<open>
  Lines 67 to 117. The notifier \<open>h\<close> and the build are reached through pointers, so the
  function works on the world: it reads and writes \<open>notifier w\<close> and the build at address
  \<open>build\<close>. Line 92 hands \<open>h.tmplView\<close> to \<open>Execute\<close>, which follows the view's pointer
  into the store as it is then, after line 88 has rewritten \<open>LogUrl\<close>. Line 99 builds the
  request body from \<open>buf\<close>, the rendered bytes; \<open>payload\<close> is written on line 95 and never
  read.
\<close>

definition SendNotification ::
  "('a, 'c) env \<Rightarrow> 'c \<Rightarrow> addr \<Rightarrow> ('a, 'c) world \<Rightarrow> outcome \<times> ('a, 'c) world" where
  "SendNotification E ctx build w =
     (case filter_h (notifier w) of
        None \<Rightarrow> (Panicked, w)
      | Some flt \<Rightarrow>
     (case builds w build of
        None \<Rightarrow> (Panicked, emit [ApplyFilter build] w)
      | Some b \<Rightarrow>
     if \<not> flt ctx b then
       (Returned None,
        emit [ApplyFilter build, Log (NotSending (Id_Build b) (Status b))] w)
     else
     (let w1 = emit [ApplyFilter build, Log (Sending (Id_Build b) (Status b))] w
      in case br (notifier w1) of
        None \<Rightarrow> (Panicked, w1)
      | Some r \<Rightarrow>
     (let w2 = emit [Resolve build] w1
      in case r ctx b of
        Inl err \<Rightarrow> (Returned (Some (FailedResolveBindings err)), w2)
      | Inr bindings \<Rightarrow>
     (let w3 = w2\<lparr>notifier :=
                  (notifier w2)\<lparr>tmplView := Some \<lparr>Build = build, Params = bindings\<rparr>\<rparr>\<rparr>;
          w4 = emit [AddUTM (LogUrl b)] w3
      in case AddUTMParams E (LogUrl b) HTTPMedium of
        Inl err \<Rightarrow> (Returned (Some (FailedAddUTMParams err)), w4)
      | Inr logURL \<Rightarrow>
     (let w5 = w4\<lparr>builds := (builds w4)(build \<mapsto> b\<lparr>LogUrl := logURL\<rparr>)\<rparr>
      in case tmpl (notifier w5) of
        None \<Rightarrow> (Panicked, w5)
      | Some t \<Rightarrow>
     (case deref_view (builds w5) (tmplView (notifier w5)) of
        None \<Rightarrow> (Panicked, w5)
      | Some (bv, ps) \<Rightarrow>
     (let w6 = emit [Execute \<lparr>Build = build, Params = bindings\<rparr>] w5
      in case t bv ps of
        Inl err \<Rightarrow> (Returned (Some (TemplateExecuteError err)), w6)
      | Inr buf \<Rightarrow>
     (let w7 = emit [EncodePayload buf] w6
      in case Encode E buf of
        Inl err \<Rightarrow> (Returned (Some (FailedEncodePayload err)), w7)
      | Inr payload \<Rightarrow>
     (case NewRequestWithContext E ctx ''POST'' (url (notifier w7)) buf of
        Inl err \<Rightarrow> (Returned (Some (FailedCreateRequest err)), w7)
      | Inr req0 \<Rightarrow>
     (let req1 = Header_Set ''Content-Type'' ''application/json'' req0;
          req = Header_Set ''User-Agent'' ''GCB-Notifier/0.1 (http)'' req1;
          w8 = emit [HTTPDo req] w7
      in case Do E req of
        Inl err \<Rightarrow> (Returned (Some (FailedHTTPRequest err)), w8)
      | Inr resp \<Rightarrow>
          (Returned None,
           emit ((if StatusCode resp \<noteq> 200
                  then [Log (NonOKResponse (Status_Response resp) (StatusCode resp)
                               (url (notifier w8)))]
                  else [])
                 @ [Log SentSuccessfully, CloseBody]) w8))))))))))))"

section \<open>Observing a run\<close>

text \<open>
  What a call of \<open>SendNotification\<close> returned, the world it left, and the calls it made
  (the part of the trace it appended). \<open>requests\<close> are the HTTP requests handed to
  \<open>Do\<close>; \<open>resolutions\<close> and \<open>renderings\<close> count the calls of \<open>Resolve\<close> and of
  \<open>Execute\<close>.
\<close>

definition result :: "('a, 'c) env \<Rightarrow> 'c \<Rightarrow> addr \<Rightarrow> ('a, 'c) world \<Rightarrow> outcome" where
  "result E ctx build w = fst (SendNotification E ctx build w)"

definition after :: "('a, 'c) env \<Rightarrow> 'c \<Rightarrow> addr \<Rightarrow> ('a, 'c) world \<Rightarrow> ('a, 'c) world" where
  "after E ctx build w = snd (SendNotification E ctx build w)"

definition calls :: "('a, 'c) env \<Rightarrow> 'c \<Rightarrow> addr \<Rightarrow> ('a, 'c) world \<Rightarrow> 'c call list" where
  "calls E ctx build w = drop (length (trace w)) (trace (after E ctx build w))"

fun requests :: "'c call list \<Rightarrow> 'c Request list" where
  "requests [] = []"
| "requests (HTTPDo r # cs) = r # requests cs"
| "requests (_ # cs) = requests cs"

fun resolutions :: "'c call list \<Rightarrow> nat" where
  "resolutions [] = 0"
| "resolutions (Resolve _ # cs) = Suc (resolutions cs)"
| "resolutions (_ # cs) = resolutions cs"

fun renderings :: "'c call list \<Rightarrow> nat" where
  "renderings [] = 0"
| "renderings (Execute _ # cs) = Suc (renderings cs)"
| "renderings (_ # cs) = renderings cs"

section \<open>The JSON string of the specification\<close>

text \<open>
  The specification describes the request body as the JSON-encoded string form of the
  rendered template: one JSON string scalar. \<open>json_string_spec\<close> follows those words
  (the rendered bytes between double quotes, with the double quote, the backslash and the
  control characters escaped); it is not a translation of anything in the source, and
  serves to compare the body the source sends with the body the specification describes.
\<close>

definition hex_digit :: "nat \<Rightarrow> char" where
  "hex_digit n = ''0123456789abcdef'' ! (n mod 16)"

definition json_escape :: "char \<Rightarrow> string" where
  "json_escape c =
     (if c = CHR 0x22 then [CHR 0x5C, CHR 0x22]
      else if c = CHR 0x5C then [CHR 0x5C, CHR 0x5C]
      else if (of_char c :: nat) < 32 then
        [CHR 0x5C, CHR ''u'', CHR ''0'', CHR ''0'',
         hex_digit (of_char c div 16), hex_digit (of_char c)]
      else [c])"

definition json_string_spec :: "string \<Rightarrow> string" where
  "json_string_spec s = CHR 0x22 # concat (map json_escape s) @ [CHR 0x22]"

section \<open>A sample environment\<close>

text \<open>
  The theorems below hold for every environment. To run them on concrete events, this
  section fixes one: a template engine for literal text and the field references
  \<open>{{.Build.Id}}\<close>, \<open>{{.Build.ProjectId}}\<close>, \<open>{{.Build.LogUrl}}\<close> and
  \<open>{{.Params.key}}\<close>; a filter compiler that knows two expressions on the build status
  and rejects every other one as an undeclared reference; an annotator that rejects a URL
  starting with a colon (as \<open>url.Parse\<close> does, for the missing scheme) and appends the
  three UTM parameters to any other; an encoder that writes \<open>{}\<close> and a newline, which is
  what \<open>encoding/json\<close> makes of a \<open>bytes.Buffer\<close> value (a struct with no exported
  field); and a destination that answers 200 at one URL, 500 at another and is unreachable
  everywhere else.
\<close>

datatype segment = Text string | Action string

fun segments :: "bool \<Rightarrow> string \<Rightarrow> string \<Rightarrow> segment list option" where
  "segments inside acc [] = (if inside then None else Some [Text (rev acc)])"
| "segments inside acc [c] = segments inside (c # acc) []"
| "segments inside acc (c # d # cs) =
     (if \<not> inside \<and> [c, d] = ''{{'' then
        map_option ((#) (Text (rev acc))) (segments True [] cs)
      else if inside \<and> [c, d] = ''}}'' then
        map_option ((#) (Action (rev acc))) (segments False [] cs)
      else segments inside (c # acc) (d # cs))"

definition field :: "string \<Rightarrow> 'a Build_scheme \<Rightarrow> (string \<rightharpoonup> string) \<Rightarrow> string + string" where
  "field a b ps =
     (if a = ''.Build.Id'' then Inr (Id_Build b)
      else if a = ''.Build.ProjectId'' then Inr (ProjectId b)
      else if a = ''.Build.LogUrl'' then Inr (LogUrl b)
      else if take 8 a = ''.Params.'' then
        (case ps (drop 8 a) of Some v \<Rightarrow> Inr v | None \<Rightarrow> Inr ''<no value>'')
      else Inl (''can't evaluate field '' @ a))"

fun render :: "segment list \<Rightarrow> 'a Template" where
  "render [] b ps = Inr []"
| "render (Text s # ss) b ps =
     (case render ss b ps of Inl e \<Rightarrow> Inl e | Inr out \<Rightarrow> Inr (s @ out))"
| "render (Action a # ss) b ps =
     (case field a b ps of
        Inl e \<Rightarrow> Inl e
      | Inr v \<Rightarrow> (case render ss b ps of Inl e \<Rightarrow> Inl e | Inr out \<Rightarrow> Inr (v @ out)))"

definition sample_Parse :: "string \<Rightarrow> string + unit Template" where
  "sample_Parse src =
     (case segments False [] src of
        None \<Rightarrow> Inl ''unclosed action''
      | Some ss \<Rightarrow> Inr (render ss))"

definition sample_MakeCELPredicate :: "string \<Rightarrow> string + (unit, unit) EventFilter" where
  "sample_MakeCELPredicate expr =
     (if expr = ''build.status == Build.Status.SUCCESS'' then Inr (\<lambda>_ b. Status b = SUCCESS)
      else if expr = ''build.status == Build.Status.FAILURE'' then Inr (\<lambda>_ b. Status b = FAILURE)
      else Inl ''undeclared reference'')"

definition sample_AddUTMParams :: "string \<Rightarrow> UTMMedium \<Rightarrow> string + string" where
  "sample_AddUTMParams u m =
     (if take 1 u = '':'' then Inl ''missing protocol scheme''
      else Inr (u @ ''?utm_campaign=google-cloud-build-notifiers&utm_medium=http''
                  @ ''&utm_source=google-cloud-build''))"

definition sample_Do :: "unit Request \<Rightarrow> string + Response" where
  "sample_Do req =
     (if URL req = ''https://example.com/hook'' then
        Inr \<lparr>Status_Response = ''200 OK'', StatusCode = 200\<rparr>
      else if URL req = ''https://example.com/down'' then
        Inr \<lparr>Status_Response = ''500 Internal Server Error'', StatusCode = 500\<rparr>
      else Inl ''connection refused'')"

definition sample_env :: "(unit, unit) env" where
  "sample_env =
     \<lparr>MakeCELPredicate = sample_MakeCELPredicate,
      Parse = sample_Parse,
      AddUTMParams = sample_AddUTMParams,
      Encode = (\<lambda>_. Inr [CHR ''{'', CHR ''}'', CHR 0x0A]),
      url_Parse = (\<lambda>u. if take 1 u = '':'' then Some ''missing protocol scheme'' else None),
      Do = sample_Do\<rparr>"

text \<open>A resolver with one binding, and the configuration, build and world of the examples.\<close>

definition sample_resolver :: "(unit, unit) BindingResolver" where
  "sample_resolver ctx b = Inr [''project'' \<mapsto> ProjectId b]"

definition sample_cfg :: "string \<Rightarrow> string \<Rightarrow> Config" where
  "sample_cfg flt dest = \<lparr>Filter = flt, Delivery = [''url'' \<mapsto> VString dest]\<rparr>"

definition sample_build :: "string \<Rightarrow> Build" where
  "sample_build logurl =
     \<lparr>Id_Build = ''b-1'', ProjectId = ''p'', Status = SUCCESS, LogUrl = logurl\<rparr>"

text \<open>
  A world whose notifier went through \<open>SetUp\<close> with the filter \<open>flt\<close>, the destination
  \<open>dest\<close> and the template \<open>Build {{.Build.Id}} succeeded\<close>, and whose store holds one
  build, at address 0, with the log URL \<open>logurl\<close>.
\<close>

definition sample_world :: "string \<Rightarrow> string \<Rightarrow> string \<Rightarrow> (unit, unit) world" where
  "sample_world flt dest logurl =
     \<lparr>notifier = snd (SetUp sample_env (sample_cfg flt dest) ''Build {{.Build.Id}} succeeded''
                       sample_resolver new_httpNotifier),
      builds = [0 \<mapsto> sample_build logurl],
      trace = []\<rparr>"

definition scenario_success :: "(unit, unit) world" where
  "scenario_success =
     sample_world ''build.status == Build.Status.SUCCESS'' ''https://example.com/hook''
       ''https://x/log''"

definition scenario_filtered :: "(unit, unit) world" where
  "scenario_filtered =
     sample_world ''build.status == Build.Status.FAILURE'' ''https://example.com/hook''
       ''https://x/log''"

definition scenario_500 :: "(unit, unit) world" where
  "scenario_500 =
     sample_world ''build.status == Build.Status.SUCCESS'' ''https://example.com/down''
       ''https://x/log''"

definition scenario_unreachable :: "(unit, unit) world" where
  "scenario_unreachable =
     sample_world ''build.status == Build.Status.SUCCESS'' ''https://example.com/nowhere''
       ''https://x/log''"

definition scenario_bad_logurl :: "(unit, unit) world" where
  "scenario_bad_logurl =
     sample_world ''build.status == Build.Status.SUCCESS'' ''https://example.com/hook''
       '':bad''"

text \<open>What \<open>SetUp\<close> and the runs of the examples produce, spelled out.\<close>

definition sample_template :: "unit Template" where
  "sample_template = render [Text ''Build '', Action ''.Build.Id'', Text '' succeeded'']"

definition ready_notifier :: "Build_Status \<Rightarrow> string \<Rightarrow> (unit, unit) httpNotifier" where
  "ready_notifier s dest =
     \<lparr>filter_h = Some (\<lambda>_ b. Status b = s), tmpl = Some sample_template,
      url = dest, br = Some sample_resolver, tmplView = None\<rparr>"

definition sample_view :: TemplateView where
  "sample_view = \<lparr>Build = 0, Params = [''project'' \<mapsto> ''p'']\<rparr>"

definition annotated :: string where
  "annotated =
     ''https://x/log?utm_campaign=google-cloud-build-notifiers&utm_medium=http''
       @ ''&utm_source=google-cloud-build''"

definition sample_request :: "string \<Rightarrow> unit Request" where
  "sample_request dest =
     \<lparr>Ctx = (), Method = ''POST'', URL = dest,
      Header = [''Content-Type'' \<mapsto> ''application/json'',
                ''User-Agent'' \<mapsto> ''GCB-Notifier/0.1 (http)''],
      Body = ''Build b-1 succeeded''\<rparr>"

definition cfg_without_url :: Config where
  "cfg_without_url =
     \<lparr>Filter = ''build.status == Build.Status.SUCCESS'', Delivery = [''uri'' \<mapsto> VInt 1]\<rparr>"

section \<open>Facts about runs\<close>

lemmas run_defs = result_def after_def calls_def SendNotification_def emit_def
  deref_view_def NewRequestWithContext_def Header_Set_def Let_def

text \<open>A run only appends to the trace: \<open>calls\<close> is what it appended.\<close>

lemma trace_after: "trace (after E ctx build w) = trace w @ calls E ctx build w"
  by (simp add: run_defs split: option.splits sum.splits)

text \<open>Without a template no request is ever made: the run panics on line 92 at the latest.\<close>

lemma no_template_no_request:
  "tmpl (notifier w) = None \<Longrightarrow> requests (calls E ctx build w) = []"
  by (simp add: run_defs split: option.splits sum.splits)

subsection \<open>The sample environment, evaluated\<close>

lemma sample_env_simps:
  "MakeCELPredicate sample_env = sample_MakeCELPredicate"
  "Parse sample_env = sample_Parse"
  "AddUTMParams sample_env = sample_AddUTMParams"
  "Encode sample_env = (\<lambda>_. Inr [CHR ''{'', CHR ''}'', CHR 0x0A])"
  "url_Parse sample_env =
     (\<lambda>u. if take 1 u = '':'' then Some ''missing protocol scheme'' else None)"
  "Do sample_env = sample_Do"
  by (simp_all add: sample_env_def)

lemmas sample_defs = sample_env_simps sample_resolver_def sample_AddUTMParams_def
  sample_Do_def sample_build_def field_def sample_template_def sample_view_def
  annotated_def sample_request_def ready_notifier_def

lemma SetUp_SUCCESS:
  "SetUp sample_env (sample_cfg ''build.status == Build.Status.SUCCESS'' dest)
     ''Build {{.Build.Id}} succeeded'' sample_resolver new_httpNotifier =
   (None, ready_notifier SUCCESS dest)"
  by (simp add: SetUp_def sample_env_simps sample_cfg_def sample_MakeCELPredicate_def
      sample_Parse_def new_httpNotifier_def ready_notifier_def sample_template_def)

lemma SetUp_FAILURE:
  "SetUp sample_env (sample_cfg ''build.status == Build.Status.FAILURE'' dest)
     ''Build {{.Build.Id}} succeeded'' sample_resolver new_httpNotifier =
   (None, ready_notifier FAILURE dest)"
  by (simp add: SetUp_def sample_env_simps sample_cfg_def sample_MakeCELPredicate_def
      sample_Parse_def new_httpNotifier_def ready_notifier_def sample_template_def)

lemma SetUp_without_url:
  "SetUp sample_env cfg_without_url ''Build {{.Build.Id}} succeeded'' sample_resolver
     new_httpNotifier =
   (Some ExpectedStringFieldUrl,
    \<lparr>filter_h = Some (\<lambda>_ b. Status b = SUCCESS), tmpl = None, url = [],
     br = Some sample_resolver, tmplView = None\<rparr>)"
  by (simp add: SetUp_def sample_env_simps cfg_without_url_def sample_MakeCELPredicate_def
      new_httpNotifier_def)

lemma sample_world_SUCCESS:
  "sample_world ''build.status == Build.Status.SUCCESS'' dest u =
     \<lparr>notifier = ready_notifier SUCCESS dest, builds = [0 \<mapsto> sample_build u], trace = []\<rparr>"
  by (simp add: sample_world_def SetUp_SUCCESS)

lemma sample_world_FAILURE:
  "sample_world ''build.status == Build.Status.FAILURE'' dest u =
     \<lparr>notifier = ready_notifier FAILURE dest, builds = [0 \<mapsto> sample_build u], trace = []\<rparr>"
  by (simp add: sample_world_def SetUp_FAILURE)

lemmas scenario_defs = scenario_success_def scenario_filtered_def scenario_500_def
  scenario_unreachable_def scenario_bad_logurl_def
  sample_world_SUCCESS sample_world_FAILURE

lemma run_success:
  "SendNotification sample_env () 0 scenario_success =
     (Returned None,
      \<lparr>notifier = (ready_notifier SUCCESS ''https://example.com/hook'')
         \<lparr>tmplView := Some sample_view\<rparr>,
       builds = [0 \<mapsto> sample_build annotated],
       trace = [ApplyFilter 0, Log (Sending ''b-1'' SUCCESS), Resolve 0,
                AddUTM ''https://x/log'', Execute sample_view,
                EncodePayload ''Build b-1 succeeded'',
                HTTPDo (sample_request ''https://example.com/hook''),
                Log SentSuccessfully, CloseBody]\<rparr>)"
  by (simp add: run_defs scenario_defs sample_defs)

lemma run_filtered:
  "SendNotification sample_env () 0 scenario_filtered =
     (Returned None,
      \<lparr>notifier = ready_notifier FAILURE ''https://example.com/hook'',
       builds = [0 \<mapsto> sample_build ''https://x/log''],
       trace = [ApplyFilter 0, Log (NotSending ''b-1'' SUCCESS)]\<rparr>)"
  by (simp add: run_defs scenario_defs sample_defs)

lemma run_500:
  "SendNotification sample_env () 0 scenario_500 =
     (Returned None,
      \<lparr>notifier = (ready_notifier SUCCESS ''https://example.com/down'')
         \<lparr>tmplView := Some sample_view\<rparr>,
       builds = [0 \<mapsto> sample_build annotated],
       trace = [ApplyFilter 0, Log (Sending ''b-1'' SUCCESS), Resolve 0,
                AddUTM ''https://x/log'', Execute sample_view,
                EncodePayload ''Build b-1 succeeded'',
                HTTPDo (sample_request ''https://example.com/down''),
                Log (NonOKResponse ''500 Internal Server Error'' 500
                       ''https://example.com/down''),
                Log SentSuccessfully, CloseBody]\<rparr>)"
  by (simp add: run_defs scenario_defs sample_defs)

lemma run_unreachable:
  "SendNotification sample_env () 0 scenario_unreachable =
     (Returned (Some (FailedHTTPRequest ''connection refused'')),
      \<lparr>notifier = (ready_notifier SUCCESS ''https://example.com/nowhere'')
         \<lparr>tmplView := Some sample_view\<rparr>,
       builds = [0 \<mapsto> sample_build annotated],
       trace = [ApplyFilter 0, Log (Sending ''b-1'' SUCCESS), Resolve 0,
                AddUTM ''https://x/log'', Execute sample_view,
                EncodePayload ''Build b-1 succeeded'',
                HTTPDo (sample_request ''https://example.com/nowhere'')]\<rparr>)"
  by (simp add: run_defs scenario_defs sample_defs)

lemma run_bad_logurl:
  "SendNotification sample_env () 0 scenario_bad_logurl =
     (Returned (Some (FailedAddUTMParams ''missing protocol scheme'')),
      \<lparr>notifier = (ready_notifier SUCCESS ''https://example.com/hook'')
         \<lparr>tmplView := Some sample_view\<rparr>,
       builds = [0 \<mapsto> sample_build '':bad''],
       trace = [ApplyFilter 0, Log (Sending ''b-1'' SUCCESS), Resolve 0, AddUTM '':bad'']\<rparr>)"
  by (simp add: run_defs scenario_defs sample_defs)

text \<open>The fields of the example worlds that the hypotheses of the theorems speak about.\<close>

lemma scenario_fields:
  "filter_h (notifier (sample_world ''build.status == Build.Status.SUCCESS'' dest u)) =
     Some (\<lambda>_ b. Status b = SUCCESS)"
  "filter_h (notifier (sample_world ''build.status == Build.Status.FAILURE'' dest u)) =
     Some (\<lambda>_ b. Status b = FAILURE)"
  "tmpl (notifier (sample_world ''build.status == Build.Status.SUCCESS'' dest u)) =
     Some sample_template"
  "br (notifier (sample_world ''build.status == Build.Status.SUCCESS'' dest u)) =
     Some sample_resolver"
  "url (notifier (sample_world ''build.status == Build.Status.SUCCESS'' dest u)) = dest"
  "builds (sample_world flt dest u) 0 = Some (sample_build u)"
  "trace (sample_world flt dest u) = []"
  by (simp_all add: sample_world_SUCCESS sample_world_FAILURE ready_notifier_def)
    (simp_all add: sample_world_def)

lemma sample_run_facts:
  "Status (sample_build u) = SUCCESS"
  "LogUrl (sample_build u) = u"
  "sample_resolver () (sample_build u) = Inr [''project'' \<mapsto> ''p'']"
  "AddUTMParams sample_env ''https://x/log'' HTTPMedium = Inr annotated"
  "AddUTMParams sample_env '':bad'' HTTPMedium = Inl ''missing protocol scheme''"
  "sample_template (sample_build u) ps = Inr ''Build b-1 succeeded''"
  "(sample_build u)\<lparr>LogUrl := v\<rparr> = sample_build v"
  "Encode sample_env buf = Inr [CHR ''{'', CHR ''}'', CHR 0x0A]"
  by (simp_all add: sample_defs)

lemma scenario_traces:
  "trace scenario_success = []"
  "trace scenario_filtered = []"
  "trace scenario_500 = []"
  "trace scenario_unreachable = []"
  "trace scenario_bad_logurl = []"
  by (simp_all add: scenario_defs)

lemmas observe_defs = result_def after_def calls_def scenario_traces

section \<open>The claims\<close>

subsection \<open>C1: the body of the request\<close>

text \<open>
  What line 99 sends, on every run that gets that far: the request body is \<open>buf.String()\<close>,
  the bytes the template rendered. Lines 90 to 98 set up a second buffer, \<open>payload\<close>, and
  JSON-encode into it, but nothing reads \<open>payload\<close> afterwards, so the encoding never
  reaches the request.
\<close>

lemma request_body_is_buf:
  assumes "filter_h (notifier w) = Some flt" and "builds w build = Some b" and "flt ctx b"
    and "br (notifier w) = Some r" and "r ctx b = Inr bindings"
    and "AddUTMParams E (LogUrl b) HTTPMedium = Inr logURL"
    and "tmpl (notifier w) = Some t" and "t (b\<lparr>LogUrl := logURL\<rparr>) bindings = Inr buf"
  shows "map Body (requests (calls E ctx build w)) =
           (if \<not> isl (Encode E buf) \<and> url_Parse E (url (notifier w)) = None
            then [buf] else [])"
  using assms by (simp add: run_defs split: option.splits sum.splits)

text \<open>
  C1: the body of the HTTP POST is to be the JSON-encoded string form of the rendered
  template output; for the event \<open>b-1\<close> with status \<open>SUCCESS\<close> and the template
  \<open>Build {{.Build.Id}} succeeded\<close> it is to be the JSON string
  \<open>"Build b-1 succeeded"\<close>, quotes included. The code does not deliver this. At that
  very event it issues one POST whose body is \<open>Build b-1 succeeded\<close>, the rendered bytes
  with no quotes around them, which differs from the JSON string of the specification:
  the encoded \<open>payload\<close> of lines 90 to 98 is a dead store, and line 99 sends the other
  buffer.
\<close>

theorem C1_body_is_not_the_json_string:
  "map Body (requests (calls sample_env () 0 scenario_success)) = [''Build b-1 succeeded''] \<and>
   json_string_spec ''Build b-1 succeeded'' =
     CHR 0x22 # ''Build b-1 succeeded'' @ [CHR 0x22] \<and>
   map Body (requests (calls sample_env () 0 scenario_success)) \<noteq>
     [json_string_spec ''Build b-1 succeeded'']"
  by (simp add: observe_defs run_success sample_request_def json_string_spec_def
      json_escape_def)

subsection \<open>C2: a response of any status is a success\<close>

text \<open>
  C2: once a request has been handed to the HTTP client, the only thing that decides what
  \<open>SendNotification\<close> returns is whether a response came back. When one did, whatever its
  status code (500 as much as 200), the call returns \<open>nil\<close>; when the transport failed,
  and only then, it returns an error, the wrapped transport error.
\<close>

theorem C2_any_response_is_success:
  assumes "HTTPDo req \<in> set (calls E ctx build w)"
  shows "(\<forall>resp. Do E req = Inr resp \<longrightarrow> result E ctx build w = Returned None) \<and>
         (\<forall>err. Do E req = Inl err \<longrightarrow>
            result E ctx build w = Returned (Some (FailedHTTPRequest err)))"
  using assms
  by (auto simp add: run_defs split: option.splits sum.splits if_splits)

theorem C2_any_response_is_success_witness:
  "HTTPDo (sample_request ''https://example.com/down'') \<in>
     set (calls sample_env () 0 scenario_500) \<and>
   Do sample_env (sample_request ''https://example.com/down'') =
     Inr \<lparr>Status_Response = ''500 Internal Server Error'', StatusCode = 500\<rparr> \<and>
   result sample_env () 0 scenario_500 = Returned None"
proof -
  have sent: "HTTPDo (sample_request ''https://example.com/down'') \<in>
                set (calls sample_env () 0 scenario_500)"
    by (simp add: observe_defs run_500)
  have resp: "Do sample_env (sample_request ''https://example.com/down'') =
                Inr \<lparr>Status_Response = ''500 Internal Server Error'', StatusCode = 500\<rparr>"
    by (simp add: sample_env_simps sample_Do_def sample_request_def)
  from C2_any_response_is_success [OF sent] resp
  have "result sample_env () 0 scenario_500 = Returned None"
    by blast
  with sent resp show ?thesis by blast
qed

subsection \<open>C3: a filtered event is a no-op\<close>

text \<open>
  C3: for every event on which the compiled predicate evaluates to false,
  \<open>SendNotification\<close> returns \<open>nil\<close> and makes no HTTP request, no binding resolution and
  no rendering. All it does is apply the filter and write one log line; the notifier and
  the event are left as they were.
\<close>

theorem C3_filtered_event_is_noop:
  assumes "filter_h (notifier w) = Some flt" and "builds w build = Some b"
    and "\<not> flt ctx b"
  shows "result E ctx build w = Returned None \<and>
         requests (calls E ctx build w) = [] \<and>
         resolutions (calls E ctx build w) = 0 \<and>
         renderings (calls E ctx build w) = 0 \<and>
         calls E ctx build w = [ApplyFilter build, Log (NotSending (Id_Build b) (Status b))] \<and>
         notifier (after E ctx build w) = notifier w \<and>
         builds (after E ctx build w) = builds w"
  using assms by (simp add: run_defs)

theorem C3_filtered_event_is_noop_witness:
  "result sample_env () 0 scenario_filtered = Returned None \<and>
   requests (calls sample_env () 0 scenario_filtered) = [] \<and>
   resolutions (calls sample_env () 0 scenario_filtered) = 0 \<and>
   renderings (calls sample_env () 0 scenario_filtered) = 0"
proof -
  have 1: "filter_h (notifier scenario_filtered) = Some (\<lambda>_ b. Status b = FAILURE)"
    and 2: "builds scenario_filtered 0 = Some (sample_build ''https://x/log'')"
    and 3: "\<not> (\<lambda>_ b. Status b = FAILURE) () (sample_build ''https://x/log'')"
    by (simp_all add: scenario_filtered_def scenario_fields sample_run_facts)
  from C3_filtered_event_is_noop [where E = sample_env and ctx = "()", OF 1 2 3]
  show ?thesis
    by (elim conjE) (intro conjI; assumption)
qed

subsection \<open>C4: a failed SetUp\<close>

text \<open>
  Claim C4 says that a failed \<open>SetUp\<close> modifies no field of the notifier. On the code it
  does: \<open>SetUp\<close> stores each field as soon as it has it (lines 50, 51 and 57), before the
  later checks. With a valid filter and a delivery configuration that has no string
  \<open>url\<close>, \<open>SetUp\<close> returns the error of line 55 and the fresh notifier has its filter and
  its binding resolver set.
\<close>

theorem C4_counterexample:
  "fst (SetUp sample_env cfg_without_url ''Build {{.Build.Id}} succeeded'' sample_resolver
          new_httpNotifier) = Some ExpectedStringFieldUrl \<and>
   filter_h (new_httpNotifier :: (unit, unit) httpNotifier) = None \<and>
   filter_h (snd (SetUp sample_env cfg_without_url ''Build {{.Build.Id}} succeeded''
                    sample_resolver new_httpNotifier)) \<noteq> None \<and>
   br (new_httpNotifier :: (unit, unit) httpNotifier) = None \<and>
   br (snd (SetUp sample_env cfg_without_url ''Build {{.Build.Id}} succeeded''
              sample_resolver new_httpNotifier)) = Some sample_resolver \<and>
   snd (SetUp sample_env cfg_without_url ''Build {{.Build.Id}} succeeded'' sample_resolver
          new_httpNotifier) \<noteq> new_httpNotifier"
  by (simp add: SetUp_without_url) (simp add: new_httpNotifier_def)

text \<open>
  C4, as amended: whenever \<open>SetUp\<close> returns an error, the template field (and the template
  view) of the notifier is unmodified, so a notifier that had no template still has none
  and no \<open>SendNotification\<close> on it ever issues a request. A predicate compilation failure
  modifies no field at all; a missing or non-string \<open>url\<close> leaves the filter and the binding
  resolver already stored; a template parse failure leaves the filter, the binding resolver
  and the url already stored.
\<close>

theorem C4_failed_SetUp:
  assumes "SetUp E cfg httpTemplate br_arg h = (Some err, h')"
  shows "tmpl h' = tmpl h \<and> tmplView h' = tmplView h \<and>
         (case err of
            FailedCreateCELPredicate m \<Rightarrow>
              MakeCELPredicate E (Filter cfg) = Inl m \<and> h' = h
          | ExpectedStringFieldUrl \<Rightarrow>
              (\<exists>prd. MakeCELPredicate E (Filter cfg) = Inr prd \<and>
                     h' = h\<lparr>filter_h := Some prd, br := Some br_arg\<rparr>)
          | FailedParseTemplate m \<Rightarrow>
              (\<exists>prd u. MakeCELPredicate E (Filter cfg) = Inr prd \<and>
                       Delivery cfg ''url'' = Some (VString u) \<and>
                       Parse E httpTemplate = Inl m \<and>
                       h' = h\<lparr>filter_h := Some prd, br := Some br_arg, url := u\<rparr>)
          | _ \<Rightarrow> False) \<and>
         (tmpl h = None \<longrightarrow>
            requests (calls E2 ctx build \<lparr>notifier = h', builds = bs, trace = tr\<rparr>) = [])"
proof -
  have fields: "tmpl h' = tmpl h \<and> tmplView h' = tmplView h"
    using assms
    by (auto simp add: SetUp_def Let_def split: sum.splits option.splits cfg_value.splits)
  have cases: "(case err of
            FailedCreateCELPredicate m \<Rightarrow>
              MakeCELPredicate E (Filter cfg) = Inl m \<and> h' = h
          | ExpectedStringFieldUrl \<Rightarrow>
              (\<exists>prd. MakeCELPredicate E (Filter cfg) = Inr prd \<and>
                     h' = h\<lparr>filter_h := Some prd, br := Some br_arg\<rparr>)
          | FailedParseTemplate m \<Rightarrow>
              (\<exists>prd u. MakeCELPredicate E (Filter cfg) = Inr prd \<and>
                       Delivery cfg ''url'' = Some (VString u) \<and>
                       Parse E httpTemplate = Inl m \<and>
                       h' = h\<lparr>filter_h := Some prd, br := Some br_arg, url := u\<rparr>)
          | _ \<Rightarrow> False)"
    using assms
    by (auto simp add: SetUp_def Let_def split: sum.splits option.splits cfg_value.splits)
  have "tmpl h = None \<longrightarrow>
          requests (calls E2 ctx build \<lparr>notifier = h', builds = bs, trace = tr\<rparr>) = []"
    using fields by (simp add: no_template_no_request)
  with fields cases show ?thesis by blast
qed

theorem C4_failed_SetUp_witness:
  "SetUp sample_env cfg_without_url ''Build {{.Build.Id}} succeeded'' sample_resolver
     new_httpNotifier =
   (Some ExpectedStringFieldUrl,
    \<lparr>filter_h = Some (\<lambda>_ b. Status b = SUCCESS), tmpl = None, url = [],
     br = Some sample_resolver, tmplView = None\<rparr>) \<and>
   requests (calls sample_env () 0
     \<lparr>notifier = \<lparr>filter_h = Some (\<lambda>_ b. Status b = SUCCESS), tmpl = None, url = [],
                  br = Some sample_resolver, tmplView = None\<rparr>,
      builds = [0 \<mapsto> sample_build ''https://x/log''], trace = []\<rparr>) = []"
proof -
  have "tmpl (new_httpNotifier :: (unit, unit) httpNotifier) = None"
    by (simp add: new_httpNotifier_def)
  with C4_failed_SetUp [OF SetUp_without_url, where ?E2.0 = sample_env and ctx = "()"
      and build = 0 and bs = "[0 \<mapsto> sample_build ''https://x/log'']" and tr = "[]"]
  show ?thesis
    by (simp add: SetUp_without_url)
qed

subsection \<open>C5: the notifier during event handling\<close>

text \<open>
  Claim C5 says that no field of the notifier is written during event handling. On the
  code one is: line 79 stores the template view of the event in \<open>h.tmplView\<close>, and line 92
  reads it back. After a successful \<open>SetUp\<close> the field is \<open>nil\<close>; after one
  \<open>SendNotification\<close> it holds the view of that event.
\<close>

theorem C5_counterexample:
  "SetUp sample_env (sample_cfg ''build.status == Build.Status.SUCCESS''
      ''https://example.com/hook'') ''Build {{.Build.Id}} succeeded'' sample_resolver
      new_httpNotifier = (None, notifier scenario_success) \<and>
   tmplView (notifier scenario_success) = None \<and>
   tmplView (notifier (after sample_env () 0 scenario_success)) = Some sample_view \<and>
   notifier (after sample_env () 0 scenario_success) \<noteq> notifier scenario_success"
proof -
  have 1: "tmplView (notifier scenario_success) = None"
    by (simp add: scenario_defs ready_notifier_def)
  have 2: "tmplView (notifier (after sample_env () 0 scenario_success)) = Some sample_view"
    by (simp add: after_def run_success)
  from 1 2 have "notifier (after sample_env () 0 scenario_success) \<noteq> notifier scenario_success"
    by auto
  with 1 2 show ?thesis
    by (simp add: SetUp_SUCCESS) (simp add: scenario_defs)
qed

text \<open>
  C5, as amended: every \<open>SendNotification\<close> call leaves the filter, the template, the url
  and the binding resolver of the notifier unchanged. The \<open>tmplView\<close> field is written
  during event handling: whenever the event passes the predicate and its bindings resolve,
  it is overwritten with the view of that event (the pointer to the event and its
  bindings); in every other case it is left as it was.
\<close>

theorem C5_notifier_frame:
  "filter_h (notifier (after E ctx build w)) = filter_h (notifier w) \<and>
   tmpl (notifier (after E ctx build w)) = tmpl (notifier w) \<and>
   url (notifier (after E ctx build w)) = url (notifier w) \<and>
   br (notifier (after E ctx build w)) = br (notifier w) \<and>
   (filter_h (notifier w) = Some flt \<and> builds w build = Some b \<and> flt ctx b \<and>
    br (notifier w) = Some r \<and> r ctx b = Inr bindings
    \<longrightarrow> tmplView (notifier (after E ctx build w)) =
          Some \<lparr>Build = build, Params = bindings\<rparr>) \<and>
   (tmplView (notifier (after E ctx build w)) \<noteq> tmplView (notifier w)
    \<longrightarrow> (\<exists>flt b r bindings.
           filter_h (notifier w) = Some flt \<and> builds w build = Some b \<and> flt ctx b \<and>
           br (notifier w) = Some r \<and> r ctx b = Inr bindings))"
proof (intro conjI impI)
  show "filter_h (notifier (after E ctx build w)) = filter_h (notifier w)"
    by (simp add: run_defs split: option.splits sum.splits)
  show "tmpl (notifier (after E ctx build w)) = tmpl (notifier w)"
    by (simp add: run_defs split: option.splits sum.splits)
  show "url (notifier (after E ctx build w)) = url (notifier w)"
    by (simp add: run_defs split: option.splits sum.splits)
  show "br (notifier (after E ctx build w)) = br (notifier w)"
    by (simp add: run_defs split: option.splits sum.splits)
next
  assume "filter_h (notifier w) = Some flt \<and> builds w build = Some b \<and> flt ctx b \<and>
    br (notifier w) = Some r \<and> r ctx b = Inr bindings"
  then show "tmplView (notifier (after E ctx build w)) =
          Some \<lparr>Build = build, Params = bindings\<rparr>"
    by (simp add: run_defs split: option.splits sum.splits)
next
  assume "tmplView (notifier (after E ctx build w)) \<noteq> tmplView (notifier w)"
  then show "\<exists>flt b r bindings.
           filter_h (notifier w) = Some flt \<and> builds w build = Some b \<and> flt ctx b \<and>
           br (notifier w) = Some r \<and> r ctx b = Inr bindings"
    by (simp add: run_defs split: option.splits sum.splits if_splits)
qed

theorem C5_notifier_frame_witness:
  "filter_h (notifier (after sample_env () 0 scenario_success)) =
     filter_h (notifier scenario_success) \<and>
   tmpl (notifier (after sample_env () 0 scenario_success)) =
     tmpl (notifier scenario_success) \<and>
   url (notifier (after sample_env () 0 scenario_success)) = url (notifier scenario_success) \<and>
   br (notifier (after sample_env () 0 scenario_success)) = br (notifier scenario_success) \<and>
   tmplView (notifier (after sample_env () 0 scenario_success)) =
     Some \<lparr>Build = 0, Params = [''project'' \<mapsto> ''p'']\<rparr>"
proof -
  have hyp: "filter_h (notifier scenario_success) = Some (\<lambda>_ b. Status b = SUCCESS) \<and>
      builds scenario_success 0 = Some (sample_build ''https://x/log'') \<and>
      (\<lambda>_ b. Status b = SUCCESS) () (sample_build ''https://x/log'') \<and>
      br (notifier scenario_success) = Some sample_resolver \<and>
      sample_resolver () (sample_build ''https://x/log'') = Inr [''project'' \<mapsto> ''p'']"
    by (simp add: scenario_success_def scenario_fields sample_run_facts)
  from C5_notifier_frame [where E = sample_env and ctx = "()" and build = 0
      and w = scenario_success and flt = "\<lambda>_ b. Status b = SUCCESS"
      and b = "sample_build ''https://x/log''" and r = sample_resolver
      and bindings = "[''project'' \<mapsto> ''p'']"] hyp
  show ?thesis
    by blast
qed

subsection \<open>C6: the caller's event\<close>

text \<open>
  C6: for every event processed by \<open>SendNotification\<close>, the only field of the caller's
  build that is ever modified is \<open>LogUrl\<close>, and when it is modified it holds the annotated
  form of the URL it held before. The identifier, the project, the status and every other
  field of the event are unchanged when \<open>SendNotification\<close> returns (or panics), and so is
  every other build of the store.
\<close>

theorem C6_only_LogUrl_is_rewritten:
  assumes "builds w build = Some b"
  shows "\<exists>b'. builds (after E ctx build w) build = Some b' \<and>
              Id_Build b' = Id_Build b \<and> ProjectId b' = ProjectId b \<and>
              Status b' = Status b \<and> Build.more b' = Build.more b \<and>
              b' = b\<lparr>LogUrl := LogUrl b'\<rparr> \<and>
              (LogUrl b' \<noteq> LogUrl b \<longrightarrow>
                 AddUTMParams E (LogUrl b) HTTPMedium = Inr (LogUrl b')) \<and>
              (\<forall>a. a \<noteq> build \<longrightarrow> builds (after E ctx build w) a = builds w a)"
  using assms by (simp add: run_defs split: option.splits sum.splits)

theorem C6_only_LogUrl_is_rewritten_witness:
  "builds scenario_success 0 =
     Some \<lparr>Id_Build = ''b-1'', ProjectId = ''p'', Status = SUCCESS, LogUrl = ''https://x/log''\<rparr> \<and>
   builds (after sample_env () 0 scenario_success) 0 =
     Some \<lparr>Id_Build = ''b-1'', ProjectId = ''p'', Status = SUCCESS, LogUrl = annotated\<rparr> \<and>
   AddUTMParams sample_env ''https://x/log'' HTTPMedium = Inr annotated"
proof -
  have before: "builds scenario_success 0 = Some (sample_build ''https://x/log'')"
    by (simp add: scenario_success_def scenario_fields)
  from C6_only_LogUrl_is_rewritten [OF before, where E = sample_env and ctx = "()"]
  obtain b' where b': "builds (after sample_env () 0 scenario_success) 0 = Some b'"
    and rest: "b' = (sample_build ''https://x/log'')\<lparr>LogUrl := LogUrl b'\<rparr>"
    by blast
  have "builds (after sample_env () 0 scenario_success) 0 = Some (sample_build annotated)"
    by (simp add: after_def run_success)
  with b' rest before show ?thesis
    by (simp add: sample_build_def sample_run_facts)
qed

subsection \<open>C7: one request, with the fixed headers\<close>

text \<open>
  C7: \<open>SendNotification\<close> never makes more than one delivery attempt for an event. For
  every event where the predicate is true and binding resolution, URL annotation, rendering
  and delivery (encoding, request construction and the transport) all succeed, it issues
  exactly one request: a POST to the configured url, whose only headers are
  \<open>Content-Type: application/json\<close> and \<open>User-Agent: GCB-Notifier/0.1 (http)\<close>, and it
  returns \<open>nil\<close>.
\<close>

theorem C7_exactly_one_POST:
  "length (requests (calls E ctx build w)) \<le> 1 \<and>
   (filter_h (notifier w) = Some flt \<and> builds w build = Some b \<and> flt ctx b \<and>
    br (notifier w) = Some r \<and> r ctx b = Inr bindings \<and>
    AddUTMParams E (LogUrl b) HTTPMedium = Inr logURL \<and>
    tmpl (notifier w) = Some t \<and> t (b\<lparr>LogUrl := logURL\<rparr>) bindings = Inr buf \<and>
    Encode E buf = Inr payload \<and> url_Parse E (url (notifier w)) = None \<and>
    Do E \<lparr>Ctx = ctx, Method = ''POST'', URL = url (notifier w),
          Header = [''Content-Type'' \<mapsto> ''application/json'',
                    ''User-Agent'' \<mapsto> ''GCB-Notifier/0.1 (http)''],
          Body = buf\<rparr> = Inr resp
    \<longrightarrow>
    requests (calls E ctx build w) =
      [\<lparr>Ctx = ctx, Method = ''POST'', URL = url (notifier w),
        Header = [''Content-Type'' \<mapsto> ''application/json'',
                  ''User-Agent'' \<mapsto> ''GCB-Notifier/0.1 (http)''],
        Body = buf\<rparr>] \<and>
    result E ctx build w = Returned None)"
proof (intro conjI impI)
  show "length (requests (calls E ctx build w)) \<le> 1"
    by (simp add: run_defs split: option.splits sum.splits)
next
  assume h: "filter_h (notifier w) = Some flt \<and> builds w build = Some b \<and> flt ctx b \<and>
    br (notifier w) = Some r \<and> r ctx b = Inr bindings \<and>
    AddUTMParams E (LogUrl b) HTTPMedium = Inr logURL \<and>
    tmpl (notifier w) = Some t \<and> t (b\<lparr>LogUrl := logURL\<rparr>) bindings = Inr buf \<and>
    Encode E buf = Inr payload \<and> url_Parse E (url (notifier w)) = None \<and>
    Do E \<lparr>Ctx = ctx, Method = ''POST'', URL = url (notifier w),
          Header = [''Content-Type'' \<mapsto> ''application/json'',
                    ''User-Agent'' \<mapsto> ''GCB-Notifier/0.1 (http)''],
          Body = buf\<rparr> = Inr resp"
  then show "requests (calls E ctx build w) =
      [\<lparr>Ctx = ctx, Method = ''POST'', URL = url (notifier w),
        Header = [''Content-Type'' \<mapsto> ''application/json'',
                  ''User-Agent'' \<mapsto> ''GCB-Notifier/0.1 (http)''],
        Body = buf\<rparr>]"
    by (simp add: run_defs)
  from h show "result E ctx build w = Returned None"
    by (simp add: run_defs)
qed

theorem C7_exactly_one_POST_witness:
  "requests (calls sample_env () 0 scenario_success) =
     [\<lparr>Ctx = (), Method = ''POST'', URL = ''https://example.com/hook'',
       Header = [''Content-Type'' \<mapsto> ''application/json'',
                 ''User-Agent'' \<mapsto> ''GCB-Notifier/0.1 (http)''],
       Body = ''Build b-1 succeeded''\<rparr>] \<and>
   result sample_env () 0 scenario_success = Returned None"
proof -
  let ?w = "sample_world ''build.status == Build.Status.SUCCESS'' ''https://example.com/hook''
              ''https://x/log''"
  have hyp: "filter_h (notifier ?w) = Some (\<lambda>_ b. Status b = SUCCESS) \<and>
      builds ?w 0 = Some (sample_build ''https://x/log'') \<and>
      (\<lambda>_ b. Status b = SUCCESS) () (sample_build ''https://x/log'') \<and>
      br (notifier ?w) = Some sample_resolver \<and>
      sample_resolver () (sample_build ''https://x/log'') = Inr [''project'' \<mapsto> ''p''] \<and>
      AddUTMParams sample_env (LogUrl (sample_build ''https://x/log'')) HTTPMedium =
        Inr annotated \<and>
      tmpl (notifier ?w) = Some sample_template \<and>
      sample_template ((sample_build ''https://x/log'')\<lparr>LogUrl := annotated\<rparr>)
        [''project'' \<mapsto> ''p''] = Inr ''Build b-1 succeeded'' \<and>
      Encode sample_env ''Build b-1 succeeded'' = Inr [CHR ''{'', CHR ''}'', CHR 0x0A] \<and>
      url_Parse sample_env (url (notifier ?w)) = None \<and>
      Do sample_env \<lparr>Ctx = (), Method = ''POST'', URL = url (notifier ?w),
          Header = [''Content-Type'' \<mapsto> ''application/json'',
                    ''User-Agent'' \<mapsto> ''GCB-Notifier/0.1 (http)''],
          Body = ''Build b-1 succeeded''\<rparr> =
        Inr \<lparr>Status_Response = ''200 OK'', StatusCode = 200\<rparr>"
    by (simp add: scenario_fields sample_run_facts)
      (simp add: sample_env_simps sample_Do_def)
  from C7_exactly_one_POST [where E = sample_env and ctx = "()" and build = 0 and w = ?w
      and flt = "\<lambda>_ b. Status b = SUCCESS" and b = "sample_build ''https://x/log''"
      and r = sample_resolver and bindings = "[''project'' \<mapsto> ''p'']"
      and logURL = annotated and t = sample_template and buf = "''Build b-1 succeeded''"
      and payload = "[CHR ''{'', CHR ''}'', CHR 0x0A]"
      and resp = "\<lparr>Status_Response = ''200 OK'', StatusCode = 200\<rparr>"] hyp
  have "requests (calls sample_env () 0 ?w) =
     [\<lparr>Ctx = (), Method = ''POST'', URL = url (notifier ?w),
       Header = [''Content-Type'' \<mapsto> ''application/json'',
                 ''User-Agent'' \<mapsto> ''GCB-Notifier/0.1 (http)''],
       Body = ''Build b-1 succeeded''\<rparr>] \<and>
     result sample_env () 0 ?w = Returned None"
    by blast
  then show ?thesis
    by (simp add: scenario_success_def scenario_fields)
qed

subsection \<open>C8: a reference URL that cannot be annotated\<close>

text \<open>
  C8: when the URL annotation of an event runs (the event has passed the predicate and its
  bindings have resolved) and the reference URL is not parseable as a URL, the annotation
  fails and \<open>SendNotification\<close> returns an error, the wrapped annotation error, without
  rendering the template and without issuing any HTTP request: the failure aborts the rest
  of the call. The calls made are the filter, one log line, the resolution and the
  annotation itself, and the event is left as it was.
\<close>

theorem C8_annotation_failure_aborts:
  assumes "filter_h (notifier w) = Some flt" and "builds w build = Some b" and "flt ctx b"
    and "br (notifier w) = Some r" and "r ctx b = Inr bindings"
    and "AddUTMParams E (LogUrl b) HTTPMedium = Inl err"
  shows "result E ctx build w = Returned (Some (FailedAddUTMParams err)) \<and>
         renderings (calls E ctx build w) = 0 \<and>
         requests (calls E ctx build w) = [] \<and>
         calls E ctx build w =
           [ApplyFilter build, Log (Sending (Id_Build b) (Status b)), Resolve build,
            AddUTM (LogUrl b)] \<and>
         builds (after E ctx build w) = builds w"
  using assms by (simp add: run_defs)

theorem C8_annotation_failure_aborts_witness:
  "result sample_env () 0 scenario_bad_logurl =
     Returned (Some (FailedAddUTMParams ''missing protocol scheme'')) \<and>
   renderings (calls sample_env () 0 scenario_bad_logurl) = 0 \<and>
   requests (calls sample_env () 0 scenario_bad_logurl) = []"
proof -
  have 1: "filter_h (notifier scenario_bad_logurl) = Some (\<lambda>_ b. Status b = SUCCESS)"
    and 2: "builds scenario_bad_logurl 0 = Some (sample_build '':bad'')"
    and 3: "(\<lambda>_ b. Status b = SUCCESS) () (sample_build '':bad'')"
    and 4: "br (notifier scenario_bad_logurl) = Some sample_resolver"
    and 5: "sample_resolver () (sample_build '':bad'') = Inr [''project'' \<mapsto> ''p'']"
    and 6: "AddUTMParams sample_env (LogUrl (sample_build '':bad'')) HTTPMedium =
              Inl ''missing protocol scheme''"
    by (simp_all add: scenario_bad_logurl_def scenario_fields sample_run_facts)
  from C8_annotation_failure_aborts [where E = sample_env and ctx = "()", OF 1 2 3 4 5 6]
  show ?thesis
    by (elim conjE) (intro conjI; assumption)
qed

subsection \<open>C9: a filter that does not compile\<close>

text \<open>
  C9: for every filter expression that the filter compiler rejects (one that is not
  well-formed, or that references unknown fields), \<open>SetUp\<close> returns an error, the wrapped
  compilation error, at setup time, and touches no field of the notifier. A fresh notifier
  therefore stays as \<open>new\<close> made it, and never becomes ready to process events: every
  \<open>SendNotification\<close> on it panics on the nil filter before it calls anything.
\<close>

theorem C9_bad_filter_fails_SetUp:
  assumes "MakeCELPredicate E (Filter cfg) = Inl err"
  shows "SetUp E cfg httpTemplate br_arg h = (Some (FailedCreateCELPredicate err), h) \<and>
         result E2 ctx build
           \<lparr>notifier = snd (SetUp E cfg httpTemplate br_arg new_httpNotifier),
            builds = bs, trace = tr\<rparr> = Panicked \<and>
         calls E2 ctx build
           \<lparr>notifier = snd (SetUp E cfg httpTemplate br_arg new_httpNotifier),
            builds = bs, trace = tr\<rparr> = []"
  using assms by (simp add: SetUp_def run_defs new_httpNotifier_def)

theorem C9_bad_filter_fails_SetUp_witness:
  "MakeCELPredicate sample_env (Filter (sample_cfg ''build.nosuchfield == 1''
     ''https://example.com/hook'')) = Inl ''undeclared reference'' \<and>
   SetUp sample_env (sample_cfg ''build.nosuchfield == 1'' ''https://example.com/hook'')
     ''Build {{.Build.Id}} succeeded'' sample_resolver new_httpNotifier =
     (Some (FailedCreateCELPredicate ''undeclared reference''), new_httpNotifier) \<and>
   result sample_env () 0
     \<lparr>notifier = snd (SetUp sample_env
         (sample_cfg ''build.nosuchfield == 1'' ''https://example.com/hook'')
         ''Build {{.Build.Id}} succeeded'' sample_resolver new_httpNotifier),
      builds = [0 \<mapsto> sample_build ''https://x/log''], trace = []\<rparr> = Panicked"
proof -
  have bad: "MakeCELPredicate sample_env (Filter (sample_cfg ''build.nosuchfield == 1''
     ''https://example.com/hook'')) = Inl ''undeclared reference''"
    by (simp add: sample_env_simps sample_MakeCELPredicate_def sample_cfg_def)
  from C9_bad_filter_fails_SetUp [OF bad, where ?E2.0 = sample_env and ctx = "()"
      and build = 0 and bs = "[0 \<mapsto> sample_build ''https://x/log'']" and tr = "[]"
      and httpTemplate = "''Build {{.Build.Id}} succeeded''" and br_arg = sample_resolver
      and h = new_httpNotifier] bad
  show ?thesis
    by (elim conjE) (intro conjI; assumption)
qed

subsection \<open>C10: the annotated URL stays after a failure\<close>

text \<open>
  C10: if \<open>SendNotification\<close> fails at any step after URL annotation has succeeded (the
  template execution, the payload encoding, the request construction or the transport; a
  panic on a nil template counts as well), the caller's event is left with its \<open>LogUrl\<close>
  rewritten to the annotated URL. Nothing restores the event on the way out.
\<close>

theorem C10_LogUrl_stays_rewritten:
  assumes "filter_h (notifier w) = Some flt" and "builds w build = Some b" and "flt ctx b"
    and "br (notifier w) = Some r" and "r ctx b = Inr bindings"
    and "AddUTMParams E (LogUrl b) HTTPMedium = Inr logURL"
    and "result E ctx build w \<noteq> Returned None"
  shows "builds (after E ctx build w) = (builds w)(build \<mapsto> b\<lparr>LogUrl := logURL\<rparr>) \<and>
         (result E ctx build w = Panicked \<or>
          (\<exists>m. result E ctx build w = Returned (Some (TemplateExecuteError m))) \<or>
          (\<exists>m. result E ctx build w = Returned (Some (FailedEncodePayload m))) \<or>
          (\<exists>m. result E ctx build w = Returned (Some (FailedCreateRequest m))) \<or>
          (\<exists>m. result E ctx build w = Returned (Some (FailedHTTPRequest m))))"
proof
  show "builds (after E ctx build w) = (builds w)(build \<mapsto> b\<lparr>LogUrl := logURL\<rparr>)"
    using assms(1-6) by (simp add: run_defs split: option.splits sum.splits)
  show "result E ctx build w = Panicked \<or>
          (\<exists>m. result E ctx build w = Returned (Some (TemplateExecuteError m))) \<or>
          (\<exists>m. result E ctx build w = Returned (Some (FailedEncodePayload m))) \<or>
          (\<exists>m. result E ctx build w = Returned (Some (FailedCreateRequest m))) \<or>
          (\<exists>m. result E ctx build w = Returned (Some (FailedHTTPRequest m)))"
    using assms by (auto simp add: run_defs split: option.splits sum.splits)
qed

theorem C10_LogUrl_stays_rewritten_witness:
  "result sample_env () 0 scenario_unreachable =
     Returned (Some (FailedHTTPRequest ''connection refused'')) \<and>
   builds scenario_unreachable 0 = Some (sample_build ''https://x/log'') \<and>
   AddUTMParams sample_env ''https://x/log'' HTTPMedium = Inr annotated \<and>
   builds (after sample_env () 0 scenario_unreachable) 0 = Some (sample_build annotated)"
proof -
  have 1: "filter_h (notifier scenario_unreachable) = Some (\<lambda>_ b. Status b = SUCCESS)"
    and 2: "builds scenario_unreachable 0 = Some (sample_build ''https://x/log'')"
    and 3: "(\<lambda>_ b. Status b = SUCCESS) () (sample_build ''https://x/log'')"
    and 4: "br (notifier scenario_unreachable) = Some sample_resolver"
    and 5: "sample_resolver () (sample_build ''https://x/log'') = Inr [''project'' \<mapsto> ''p'']"
    and 6: "AddUTMParams sample_env (LogUrl (sample_build ''https://x/log'')) HTTPMedium =
              Inr annotated"
    by (simp_all add: scenario_unreachable_def scenario_fields sample_run_facts)
  have res: "result sample_env () 0 scenario_unreachable =
               Returned (Some (FailedHTTPRequest ''connection refused''))"
    by (simp add: result_def run_unreachable)
  then have 7: "result sample_env () 0 scenario_unreachable \<noteq> Returned None"
    by simp
  from C10_LogUrl_stays_rewritten [where E = sample_env and ctx = "()", OF 1 2 3 4 5 6 7]
  have "builds (after sample_env () 0 scenario_unreachable) =
          (builds scenario_unreachable)
            (0 \<mapsto> (sample_build ''https://x/log'')\<lparr>LogUrl := annotated\<rparr>)"
    by blast
  then have "builds (after sample_env () 0 scenario_unreachable) 0 = Some (sample_build annotated)"
    by (simp add: sample_run_facts)
  with res 2 6 show ?thesis
    by (simp add: sample_run_facts)
qed

end
